theory Spec2Isabelle
  imports Complex_Main
begin

section \<open>Values handled by the scraper\<close>

text \<open>
  The scraper works on decoded JSON. A Python \<open>dict\<close> keeps its entries in insertion
  order, so an object is an association list; a lookup \<open>j[k]\<close> is \<open>map_of\<close>. Python's
  \<open>None\<close> is \<open>JNull\<close>. Integers are unbounded. A float is modelled by the real number
  it denotes: binary rounding, overflow and the non-finite values are outside the
  model. Characters are code points below 256.
\<close>

datatype json =
    JNull
  | JBool bool
  | JInt int
  | JFloat real
  | JStr string
  | JList "json list"
  | JDict "(string \<times> json) list"

section \<open>Python built-ins used by the scraper\<close>

text \<open>
  Every built-in that can raise returns a sum, with the exception on the left; a
  \<^verbatim>\<open>try: ... except Exception:\<close> block is a case distinction on that sum.
\<close>

datatype exn = ValueError | TypeError | KeyError | IndexError

text \<open>Truth value testing, as in \<^verbatim>\<open>if x:\<close>, \<^verbatim>\<open>not x\<close> and \<^verbatim>\<open>x or y\<close>.\<close>

definition truthy :: "json \<Rightarrow> bool" where
  "truthy v =
     (case v of
        JNull \<Rightarrow> False
      | JBool b \<Rightarrow> b
      | JInt i \<Rightarrow> i \<noteq> 0
      | JFloat x \<Rightarrow> x \<noteq> 0
      | JStr s \<Rightarrow> s \<noteq> []
      | JList xs \<Rightarrow> xs \<noteq> []
      | JDict kvs \<Rightarrow> kvs \<noteq> [])"

definition is_digit :: "char \<Rightarrow> bool" where
  "is_digit c = (c \<in> set ''0123456789'')"

definition digit_val :: "char \<Rightarrow> nat" where
  "digit_val c = of_char c - 48"

text \<open>
  The white space that \<^verbatim>\<open>int\<close> and \<^verbatim>\<open>float\<close> skip at both ends of a text: tab,
  line feed, vertical tab, form feed, carriage return, space, and the two Latin-1
  spaces U+0085 and U+00A0.
\<close>

definition is_space :: "char \<Rightarrow> bool" where
  "is_space c = ((of_char c :: nat) \<in> set [9, 10, 11, 12, 13, 32, 133, 160])"

definition strip :: "string \<Rightarrow> string" where
  "strip s = rev (dropWhile is_space (rev (dropWhile is_space s)))"

text \<open>
  A digit part: decimal digits, with single underscores allowed between two digits.
  The result is the digits without the underscores.
\<close>

fun digits_us :: "string \<Rightarrow> string option" where
  "digits_us [] = None"
| "digits_us [c] = (if is_digit c then Some [c] else None)"
| "digits_us (c # d # rest) =
     (if \<not> is_digit c then None
      else if d = CHR ''_'' then map_option ((#) c) (digits_us rest)
      else map_option ((#) c) (digits_us (d # rest)))"

definition dec_value :: "string \<Rightarrow> nat" where
  "dec_value ds = foldl (\<lambda>a c. 10 * a + digit_val c) 0 ds"

definition split_sign :: "string \<Rightarrow> bool \<times> string" where
  "split_sign s =
     (case s of
        [] \<Rightarrow> (False, [])
      | c # cs \<Rightarrow>
          if c = CHR ''-'' then (True, cs)
          else if c = CHR ''+'' then (False, cs)
          else (False, s))"

text \<open>
  \<^verbatim>\<open>int(s)\<close> for a text \<open>s\<close>: optional white space, an optional sign, a digit part,
  optional white space. (The interpreter's limit on the number of digits is not
  modelled.)
\<close>

definition int_of_str :: "string \<Rightarrow> exn + int" where
  "int_of_str s =
     (case split_sign (strip s) of
        (neg, u) \<Rightarrow>
          (case digits_us u of
             None \<Rightarrow> Inl ValueError
           | Some ds \<Rightarrow> Inr (if neg then - int (dec_value ds) else int (dec_value ds))))"

text \<open>
  \<^verbatim>\<open>int(v)\<close>. A bool is an int; a float is truncated towards zero; \<open>None\<close>, lists and
  dicts raise \<open>TypeError\<close>.
\<close>

definition py_int :: "json \<Rightarrow> exn + int" where
  "py_int v =
     (case v of
        JNull \<Rightarrow> Inl TypeError
      | JBool b \<Rightarrow> Inr (if b then 1 else 0)
      | JInt i \<Rightarrow> Inr i
      | JFloat x \<Rightarrow> Inr (if x < 0 then \<lceil>x\<rceil> else \<lfloor>x\<rfloor>)
      | JStr s \<Rightarrow> int_of_str s
      | JList _ \<Rightarrow> Inl TypeError
      | JDict _ \<Rightarrow> Inl TypeError)"

definition split_at :: "(char \<Rightarrow> bool) \<Rightarrow> string \<Rightarrow> string \<times> string option" where
  "split_at P s =
     (takeWhile (\<lambda>c. \<not> P c) s,
      case dropWhile (\<lambda>c. \<not> P c) s of [] \<Rightarrow> None | _ # r \<Rightarrow> Some r)"

definition digits_opt :: "string \<Rightarrow> string option" where
  "digits_opt s = (if s = [] then Some [] else digits_us s)"

definition exponent_of :: "string option \<Rightarrow> int option" where
  "exponent_of ex =
     (case ex of
        None \<Rightarrow> Some 0
      | Some t \<Rightarrow>
          (case split_sign t of
             (neg, d) \<Rightarrow>
               map_option (\<lambda>ds. if neg then - int (dec_value ds) else int (dec_value ds))
                 (digits_us d)))"

definition scale10 :: "real \<Rightarrow> int \<Rightarrow> real" where
  "scale10 m e = (if 0 \<le> e then m * 10 ^ nat e else m / 10 ^ nat (- e))"

text \<open>
  \<^verbatim>\<open>float(s)\<close> for a text \<open>s\<close>: optional white space, an optional sign, then digits
  with an optional fraction and an optional exponent, at least one digit before or
  after the point. The value is the exact decimal value. The spellings of the
  non-finite values (\<open>inf\<close>, \<open>infinity\<close>, \<open>nan\<close>) denote nothing in this model and are
  not told apart from malformed text.
\<close>

definition float_of_str :: "string \<Rightarrow> exn + real" where
  "float_of_str s =
     (case split_sign (strip s) of
        (neg, u) \<Rightarrow>
          (case split_at (\<lambda>c. c = CHR ''e'' \<or> c = CHR ''E'') u of
             (mant, ex) \<Rightarrow>
               (case split_at (\<lambda>c. c = CHR ''.'') mant of
                  (ip, fp) \<Rightarrow>
                    (case (digits_opt ip,
                           digits_opt (case fp of None \<Rightarrow> [] | Some f \<Rightarrow> f),
                           exponent_of ex) of
                       (Some i, Some f, Some e) \<Rightarrow>
                         if i = [] \<and> f = [] then Inl ValueError
                         else
                           let m = scale10
                                 (real (dec_value i) + real (dec_value f) / 10 ^ length f) e
                           in Inr (if neg then - m else m)
                     | _ \<Rightarrow> Inl ValueError))))"

text \<open>\<^verbatim>\<open>float(v)\<close>.\<close>

definition py_float :: "json \<Rightarrow> exn + real" where
  "py_float v =
     (case v of
        JNull \<Rightarrow> Inl TypeError
      | JBool b \<Rightarrow> Inr (if b then 1 else 0)
      | JInt i \<Rightarrow> Inr (of_int i)
      | JFloat x \<Rightarrow> Inr x
      | JStr s \<Rightarrow> float_of_str s
      | JList _ \<Rightarrow> Inl TypeError
      | JDict _ \<Rightarrow> Inl TypeError)"

text \<open>\<^verbatim>\<open>s.replace(",", "")\<close>\<close>

definition replace_commas :: "string \<Rightarrow> string" where
  "replace_commas s = filter (\<lambda>c. c \<noteq> CHR '','') s"

text \<open>
  \<^verbatim>\<open>re.findall(r"\d+", s)\<close>: the maximal runs of digits, from left to right. The
  first argument is the run being read.
\<close>

fun scan_digits :: "string \<Rightarrow> string \<Rightarrow> string list" where
  "scan_digits cur [] = (if cur = [] then [] else [cur])"
| "scan_digits cur (c # cs) =
     (if is_digit c then scan_digits (cur @ [c]) cs
      else if cur = [] then scan_digits [] cs
      else cur # scan_digits [] cs)"

definition findall_digits :: "string \<Rightarrow> string list" where
  "findall_digits s = scan_digits [] s"

text \<open>
  Banker's rounding to an integer, as \<^verbatim>\<open>round(x)\<close> does: a tie goes to the even
  neighbour.
\<close>

definition round_half_even :: "real \<Rightarrow> int" where
  "round_half_even x =
     (let f = \<lfloor>x\<rfloor>; d = x - of_int f
      in if d < 1 / 2 then f
         else if 1 / 2 < d then f + 1
         else if even f then f else f + 1)"

text \<open>\<^verbatim>\<open>round(x, 2)\<close>\<close>

definition py_round2 :: "real \<Rightarrow> real" where
  "py_round2 x = of_int (round_half_even (x * 100)) / 100"

text \<open>\<^verbatim>\<open>math.sqrt\<close> and \<^verbatim>\<open>math.asin\<close> raise outside their domain.\<close>

definition py_sqrt :: "real \<Rightarrow> exn + real" where
  "py_sqrt x = (if x < 0 then Inl ValueError else Inr (sqrt x))"

definition py_asin :: "real \<Rightarrow> exn + real" where
  "py_asin x = (if x < - 1 \<or> 1 < x then Inl ValueError else Inr (arcsin x))"

definition radians :: "real \<Rightarrow> real" where
  "radians d = d * pi / 180"

section \<open>Helpers\<close>

text \<open>
  \<^verbatim>\<open>
  def km_to_walk_minutes(km):
      return int(round(km * 12))
  \<close>
\<close>

definition km_to_walk_minutes :: "real \<Rightarrow> int" where
  "km_to_walk_minutes km = round_half_even (km * 12)"

text \<open>
  \<^verbatim>\<open>
  def haversine_km(lat1, lon1, lat2, lon2):
      R = 6371.0
      phi1, phi2 = math.radians(lat1), math.radians(lat2)
      dphi = math.radians(lat2 - lat1)
      dlambda = math.radians(lon2 - lon1)
      a = math.sin(dphi/2)**2 + math.cos(phi1)*math.cos(phi2)*math.sin(dlambda/2)**2
      return R * 2 * math.asin(math.sqrt(a))
  \<close>
\<close>

definition haversine_a :: "real \<Rightarrow> real \<Rightarrow> real \<Rightarrow> real \<Rightarrow> real" where
  "haversine_a lat1 lon1 lat2 lon2 =
     (let phi1 = radians lat1; phi2 = radians lat2;
          dphi = radians (lat2 - lat1);
          dlambda = radians (lon2 - lon1)
      in (sin (dphi / 2))\<^sup>2 + cos phi1 * cos phi2 * (sin (dlambda / 2))\<^sup>2)"

definition haversine_km :: "real \<Rightarrow> real \<Rightarrow> real \<Rightarrow> real \<Rightarrow> exn + real" where
  "haversine_km lat1 lon1 lat2 lon2 =
     (case py_sqrt (haversine_a lat1 lon1 lat2 lon2) of
        Inl e \<Rightarrow> Inl e
      | Inr r \<Rightarrow>
          (case py_asin r of
             Inl e \<Rightarrow> Inl e
           | Inr t \<Rightarrow> Inr (6371 * 2 * t)))"

text \<open>
  \<^verbatim>\<open>
  def try_get(o, keys):
      for k in keys:
          if isinstance(o, dict) and k in o:
              return o[k]
      return None
  \<close>
\<close>

fun try_get :: "json \<Rightarrow> string list \<Rightarrow> json" where
  "try_get obj [] = JNull"
| "try_get obj (k # ks) =
     (case obj of
        JDict kvs \<Rightarrow> (case map_of kvs k of Some v \<Rightarrow> v | None \<Rightarrow> try_get obj ks)
      | _ \<Rightarrow> try_get obj ks)"

section \<open>The field normalizer\<close>

text \<open>The dict that \<^verbatim>\<open>extract_field\<close> returns, later updated by the geocoding step.\<close>

record item =
  price_raw :: json
  price :: "int option"
  beds :: "int option"
  baths :: "int option"
  cars :: "int option"
  address :: json
  url :: json
  lat :: json
  lon :: json

text \<open>\<^verbatim>\<open>isinstance(v, (int, float))\<close>; a bool is an int.\<close>

definition is_number :: "json \<Rightarrow> bool" where
  "is_number v = (case v of JBool _ \<Rightarrow> True | JInt _ \<Rightarrow> True | JFloat _ \<Rightarrow> True | _ \<Rightarrow> False)"

text \<open>
  The body of the first \<^verbatim>\<open>try\<close> block:
  \<^verbatim>\<open>
      price_val = None
      if isinstance(price, (int, float)):
          price_val = int(price)
      elif isinstance(price, str):
          nums = re.findall(r"\d+", price.replace(",", ""))
          if nums:
              price_val = int("".join(nums))
  \<close>
\<close>

definition price_try :: "json \<Rightarrow> exn + int option" where
  "price_try p =
     (if is_number p then
        (case py_int p of Inl e \<Rightarrow> Inl e | Inr n \<Rightarrow> Inr (Some n))
      else
        (case p of
           JStr s \<Rightarrow>
             (let nums = findall_digits (replace_commas s)
              in if nums \<noteq> [] then
                   (case int_of_str (concat nums) of
                      Inl e \<Rightarrow> Inl e
                    | Inr n \<Rightarrow> Inr (Some n))
                 else Inr None)
         | _ \<Rightarrow> Inr None))"

text \<open>The body of \<^verbatim>\<open>beds = int(beds) if beds not in (None, "") else None\<close>.\<close>

definition int_try :: "json \<Rightarrow> exn + int option" where
  "int_try v =
     (if v \<noteq> JNull \<and> v \<noteq> JStr [] then
        (case py_int v of Inl e \<Rightarrow> Inl e | Inr n \<Rightarrow> Inr (Some n))
      else Inr None)"

text \<open>\<^verbatim>\<open>try: x = ... except Exception: x = None\<close>\<close>

definition except_none :: "exn + 'a option \<Rightarrow> 'a option" where
  "except_none r = (case r of Inl _ \<Rightarrow> None | Inr v \<Rightarrow> v)"

definition price_keys :: "string list" where
  "price_keys = [''price'', ''price_display'', ''price_value'', ''price_min'', ''asking_price'']"

definition beds_keys :: "string list" where
  "beds_keys = [''bedrooms'', ''beds'', ''bed'']"

definition baths_keys :: "string list" where
  "baths_keys = [''bathrooms'', ''baths'', ''bath'']"

definition cars_keys :: "string list" where
  "cars_keys = [''carspaces'', ''cars'', ''parking'', ''car'']"

definition address_keys :: "string list" where
  "address_keys = [''address'', ''full_address'', ''displayable_address'', ''formatted_address'']"

definition url_keys :: "string list" where
  "url_keys = [''url'', ''ldp_url'', ''listing_url'', ''detail_url'']"

definition lat_keys :: "string list" where
  "lat_keys = [''lat'', ''latitude'']"

definition lon_keys :: "string list" where
  "lon_keys = [''lon'', ''lng'', ''longitude'']"

definition extract_field :: "json \<Rightarrow> item" where
  "extract_field listing =
     \<lparr> price_raw = try_get listing price_keys,
       price = except_none (price_try (try_get listing price_keys)),
       beds = except_none (int_try (try_get listing beds_keys)),
       baths = except_none (int_try (try_get listing baths_keys)),
       cars = except_none (int_try (try_get listing cars_keys)),
       address = try_get listing address_keys,
       url = try_get listing url_keys,
       lat = try_get listing lat_keys,
       lon = try_get listing lon_keys \<rparr>"

section \<open>The listing-container locator\<close>

text \<open>
  \<^verbatim>\<open>
  def find_listings_container(j):
      candidates = ["properties", "listings", "results", "data", "items"]
      if isinstance(j, dict):
          for k in candidates:
              if k in j and isinstance(j[k], list):
                  return j[k]
          for k,v in j.items():
              if isinstance(v, list) and len(v) and isinstance(v[0], dict):
                  return v
      if isinstance(j, list):
          return j
      return None
  \<close>
\<close>

definition candidates :: "string list" where
  "candidates = [''properties'', ''listings'', ''results'', ''data'', ''items'']"

text \<open>The first loop: the candidate keys in their fixed order.\<close>

fun candidate_loop :: "string list \<Rightarrow> (string \<times> json) list \<Rightarrow> json list option" where
  "candidate_loop [] kvs = None"
| "candidate_loop (k # ks) kvs =
     (case map_of kvs k of
        Some (JList xs) \<Rightarrow> Some xs
      | _ \<Rightarrow> candidate_loop ks kvs)"

text \<open>The fallback loop over \<open>j.items()\<close>: the first list whose head is a dict.\<close>

fun items_loop :: "(string \<times> json) list \<Rightarrow> json list option" where
  "items_loop [] = None"
| "items_loop ((k, v) # rest) =
     (case v of
        JList (JDict d # xs) \<Rightarrow> Some (JDict d # xs)
      | _ \<Rightarrow> items_loop rest)"

definition find_listings_container :: "json \<Rightarrow> json list option" where
  "find_listings_container j =
     (case j of
        JDict kvs \<Rightarrow>
          (case candidate_loop candidates kvs of
             Some xs \<Rightarrow> Some xs
           | None \<Rightarrow> items_loop kvs)
      | JList xs \<Rightarrow> Some xs
      | _ \<Rightarrow> None)"

subsection \<open>The locator as the specification words it\<close>

definition is_sequence :: "json \<Rightarrow> bool" where
  "is_sequence v = (case v of JList _ \<Rightarrow> True | _ \<Rightarrow> False)"

definition is_record :: "json \<Rightarrow> bool" where
  "is_record v = (case v of JDict _ \<Rightarrow> True | _ \<Rightarrow> False)"

definition nonempty_sequence_of_records :: "json \<Rightarrow> bool" where
  "nonempty_sequence_of_records v =
     (case v of JList (x # _) \<Rightarrow> is_record x | _ \<Rightarrow> False)"

definition maps_to_sequence :: "(string \<times> json) list \<Rightarrow> string \<Rightarrow> bool" where
  "maps_to_sequence kvs k = (case map_of kvs k of Some v \<Rightarrow> is_sequence v | None \<Rightarrow> False)"

text \<open>
  The value of the first conventional key whose value is a sequence; failing that, the
  first value in iteration order that is a non-empty sequence headed by a record; a
  top-level sequence itself; otherwise not found.
\<close>

definition locate_spec :: "json \<Rightarrow> json option" where
  "locate_spec j =
     (case j of
        JDict kvs \<Rightarrow>
          (case find (maps_to_sequence kvs) candidates of
             Some k \<Rightarrow> map_of kvs k
           | None \<Rightarrow> map_option snd (find (\<lambda>kv. nonempty_sequence_of_records (snd kv)) kvs))
      | JList xs \<Rightarrow> Some (JList xs)
      | _ \<Rightarrow> None)"

section \<open>The main procedure\<close>





definition STATION_COORDS :: "real \<times> real" where
  "STATION_COORDS = (- 33.8178, 151.0035)"

definition PARK_COORDS :: "real \<times> real" where
  "PARK_COORDS = (- 33.8145, 151.0024)"


definition then_exn :: "exn + 'a \<Rightarrow> ('a \<Rightarrow> exn + 'b) \<Rightarrow> exn + 'b" where
  "then_exn r f = (case r of Inl e \<Rightarrow> Inl e | Inr x \<Rightarrow> f x)"

text \<open>\<^verbatim>\<open>v[0]\<close> and \<^verbatim>\<open>v[k]\<close> for a text key \<open>k\<close>.\<close>

definition py_first :: "json \<Rightarrow> exn + json" where
  "py_first v =
     (case v of
        JList [] \<Rightarrow> Inl IndexError
      | JList (x # _) \<Rightarrow> Inr x
      | JStr [] \<Rightarrow> Inl IndexError
      | JStr (c # _) \<Rightarrow> Inr (JStr [c])
      | JDict _ \<Rightarrow> Inl KeyError
      | _ \<Rightarrow> Inl TypeError)"

definition py_getitem :: "json \<Rightarrow> string \<Rightarrow> exn + json" where
  "py_getitem v k =
     (case v of
        JDict kvs \<Rightarrow> (case map_of kvs k of None \<Rightarrow> Inl KeyError | Some x \<Rightarrow> Inr x)
      | _ \<Rightarrow> Inl TypeError)"

subsection \<open>Geocoding\<close>

text \<open>
  \<^verbatim>\<open>
          if item["lat"] is None or item["lon"] is None:
              if item["address"]:
                  try:
                      q = f"{item['address']}, Parramatta NSW"
                      rgeo = requests.get(geocode_url, params={"q": q, ...}, ...)
                      geodata = rgeo.json()
                      if geodata:
                          item["lat"] = float(geodata[0]["lat"])
                          item["lon"] = float(geodata[0]["lon"])
                          sleep(1)
                  except Exception:
                      pass
  \<close>
  An exception leaves the item as it is at that moment: the latitude may already be
  assigned when the longitude fails.
\<close>

definition geodata_coord :: "json \<Rightarrow> string \<Rightarrow> exn + real" where
  "geodata_coord geodata k =
     then_exn (py_first geodata) (\<lambda>g. then_exn (py_getitem g k) py_float)"

definition geocode_assign :: "json \<Rightarrow> item \<Rightarrow> item" where
  "geocode_assign geodata it =
     (case geodata_coord geodata ''lat'' of
        Inl _ \<Rightarrow> it
      | Inr a \<Rightarrow>
          (case geodata_coord geodata ''lon'' of
             Inl _ \<Rightarrow> it\<lparr>lat := JFloat a\<rparr>
           | Inr b \<Rightarrow> it\<lparr>lat := JFloat a, lon := JFloat b\<rparr>))"

definition geocode :: "(json \<Rightarrow> json option) \<Rightarrow> item \<Rightarrow> item" where
  "geocode lookup it =
     (if lat it = JNull \<or> lon it = JNull then
        if truthy (address it) then
          (case lookup (address it) of
             None \<Rightarrow> it
           | Some geodata \<Rightarrow> if truthy geodata then geocode_assign geodata it else it)
        else it
      else it)"

subsection \<open>Distances\<close>

text \<open>
  \<^verbatim>\<open>
          dist_station_km = None
          dist_park_km = None
          if item["lat"] and item["lon"]:
              try:
                  dist_station_km = round(haversine_km(float(item["lat"]),
                      float(item["lon"]), STATION_COORDS[0], STATION_COORDS[1]), 2)
                  dist_park_km = round(haversine_km(float(item["lat"]),
                      float(item["lon"]), PARK_COORDS[0], PARK_COORDS[1]), 2)
              except Exception:
                  pass
  \<close>
\<close>

definition distance_to :: "item \<Rightarrow> real \<times> real \<Rightarrow> exn + real" where
  "distance_to it c =
     then_exn (py_float (lat it)) (\<lambda>a.
     then_exn (py_float (lon it)) (\<lambda>b.
     then_exn (haversine_km a b (fst c) (snd c)) (\<lambda>d.
     Inr (py_round2 d))))"

definition distances :: "item \<Rightarrow> real option \<times> real option" where
  "distances it =
     (if truthy (lat it) \<and> truthy (lon it) then
        (case distance_to it STATION_COORDS of
           Inl _ \<Rightarrow> (None, None)
         | Inr ds \<Rightarrow>
             (case distance_to it PARK_COORDS of
                Inl _ \<Rightarrow> (Some ds, None)
              | Inr dp \<Rightarrow> (Some ds, Some dp)))
      else (None, None))"

subsection \<open>Pros and cons\<close>

text \<open>
  \<^verbatim>\<open>x and P(x)\<close> for an optional integer \<open>x\<close>: \<open>None\<close> and \<open>0\<close> are false.
\<close>

definition truthy_and :: "int option \<Rightarrow> (int \<Rightarrow> bool) \<Rightarrow> bool" where
  "truthy_and x P = (case x of None \<Rightarrow> False | Some n \<Rightarrow> n \<noteq> 0 \<and> P n)"

text \<open>
  \<^verbatim>\<open>
          if item["cars"] and item["cars"] >= 1:
              pros.append("Has 1+ car space")
          else:
              cons.append("No dedicated parking listed")
  \<close>
\<close>

definition cars_rule :: "item \<Rightarrow> string list \<times> string list \<Rightarrow> string list \<times> string list" where
  "cars_rule it pc =
     (case pc of
        (ps, cs) \<Rightarrow>
          if truthy_and (cars it) (\<lambda>c. 1 \<le> c) then (ps @ [''Has 1+ car space''], cs)
          else (ps, cs @ [''No dedicated parking listed'']))"

text \<open>
  \<^verbatim>\<open>
          if item["beds"] == 2 and item["baths"] and item["baths"] >= 2:
              pros.append("2 beds + 2 baths")
          elif item["beds"] == 2 and (not item["baths"] or item["baths"] == 1):
              cons.append("Only 1 bath for 2 beds")
  \<close>
\<close>

definition baths_rule :: "item \<Rightarrow> string list \<times> string list \<Rightarrow> string list \<times> string list" where
  "baths_rule it pc =
     (case pc of
        (ps, cs) \<Rightarrow>
          if beds it = Some 2 \<and> truthy_and (baths it) (\<lambda>b. 2 \<le> b)
            then (ps @ [''2 beds + 2 baths''], cs)
          else if beds it = Some 2
                  \<and> (\<not> truthy_and (baths it) (\<lambda>b. True) \<or> baths it = Some 1)
            then (ps, cs @ [''Only 1 bath for 2 beds''])
          else (ps, cs))"

text \<open>
  \<^verbatim>\<open>
          if item["price"] and item["price"] <= (MAX_PRICE - 50000):
              pros.append("Good value under budget")
          elif item["price"] and item["price"] >= (MAX_PRICE - 10000):
              cons.append("Close to top of budget")
  \<close>
\<close>

definition price_rule ::
  "int \<Rightarrow> item \<Rightarrow> string list \<times> string list \<Rightarrow> string list \<times> string list" where
  "price_rule mp it pc =
     (case pc of
        (ps, cs) \<Rightarrow>
          if truthy_and (price it) (\<lambda>p. p \<le> mp - 50000)
            then (ps @ [''Good value under budget''], cs)
          else if truthy_and (price it) (\<lambda>p. mp - 10000 \<le> p)
            then (ps, cs @ [''Close to top of budget''])
          else (ps, cs))"

definition annotate :: "int \<Rightarrow> item \<Rightarrow> string list \<times> string list" where
  "annotate mp it = price_rule mp it (baths_rule it (cars_rule it ([], [])))"

subsection \<open>The loop over the listings\<close>

record enriched =
  raw :: item
  dist_station_km :: "real option"
  dist_park_km :: "real option"
  pros :: "string list"
  cons :: "string list"

definition enrich :: "int \<Rightarrow> (json \<Rightarrow> json option) \<Rightarrow> json \<Rightarrow> enriched" where
  "enrich mp lookup listing =
     (let it = geocode lookup (extract_field listing)
      in \<lparr> raw = it,
           dist_station_km = fst (distances it),
           dist_park_km = snd (distances it),
           pros = fst (annotate mp it),
           cons = snd (annotate mp it) \<rparr>)"


subsection \<open>The report\<close>

text \<open>
  The report is kept as the texts handed to the PDF library, one list of lines for
  each listing; fonts, spacing, rules and page breaks are layout. A line is a list
  of fragments: literal text, a value formatted by \<^verbatim>\<open>str\<close> (\<open>Str\<close>), an integer
  in decimal (\<open>Dec\<close>), a float (\<open>Flt\<close>), and the dash between title and price (\<open>Dash\<close>).
\<close>

datatype frag = Lit string | Str json | Dec int | Flt real | Dash

type_synonym line = "frag list"


text \<open>\<^verbatim>\<open>title = i.get("address") or str(i.get("url") or "Property")\<close>\<close>

definition title_of :: "item \<Rightarrow> frag" where
  "title_of i =
     (if truthy (address i) then Str (address i)
      else if truthy (url i) then Str (url i)
      else Lit ''Property'')"

text \<open>
  \<^verbatim>\<open>price_text = i.get("price_raw") or
       (f"${i.get('price')}" if i.get("price") else "Price unknown")\<close>
\<close>

definition price_text_of :: "item \<Rightarrow> line" where
  "price_text_of i =
     (if truthy (price_raw i) then [Str (price_raw i)]
      else
        (case price i of
           None \<Rightarrow> [Lit ''Price unknown'']
         | Some p \<Rightarrow> if p \<noteq> 0 then [Lit ''$'', Dec p] else [Lit ''Price unknown'']))"

text \<open>\<^verbatim>\<open>beds = i.get("beds") or "?"\<close>, and the same for baths and cars.\<close>

definition count_or_unknown :: "int option \<Rightarrow> frag" where
  "count_or_unknown n =
     (case n of
        None \<Rightarrow> Lit ''?''
      | Some k \<Rightarrow> if k \<noteq> 0 then Dec k else Lit ''?'')"

definition title_line :: "item \<Rightarrow> line" where
  "title_line i = [title_of i, Dash] @ price_text_of i"

definition summary_line :: "item \<Rightarrow> line" where
  "summary_line i =
     [count_or_unknown (beds i), Lit '' bed | '',
      count_or_unknown (baths i), Lit '' bath | '',
      count_or_unknown (cars i), Lit '' car'']"

text \<open>\<^verbatim>\<open>", ".join(xs)\<close>\<close>

fun join_comma :: "string list \<Rightarrow> string" where
  "join_comma [] = []"
| "join_comma [x] = x"
| "join_comma (x # y # ys) = x @ '', '' @ join_comma (y # ys)"

definition distance_line :: "string \<Rightarrow> real \<Rightarrow> line" where
  "distance_line place d =
     [Lit ''Distance: '', Flt d, Lit ('' km to '' @ place @ '' (~''),
      Dec (km_to_walk_minutes d), Lit '' min walk)'']"

text \<open>
  The body of \<^verbatim>\<open>for p in props:\<close>: the title and price, the summary, then the
  optional link, distance, pros and cons lines.
\<close>

definition render_block :: "enriched \<Rightarrow> line list" where
  "render_block p =
     [title_line (raw p), summary_line (raw p)]
     @ (if truthy (url (raw p)) then [[Lit ''Link: '', Str (url (raw p))]] else [])
     @ (case dist_station_km p of
          None \<Rightarrow> []
        | Some d \<Rightarrow> [distance_line ''station'' d])
     @ (case dist_park_km p of
          None \<Rightarrow> []
        | Some d \<Rightarrow> [distance_line ''Parramatta Park'' d])
     @ (if pros p \<noteq> [] then [[Lit (''Pros: '' @ join_comma (pros p))]] else [])
     @ (if cons p \<noteq> [] then [[Lit (''Cons: '' @ join_comma (cons p))]] else [])"


subsection \<open>The whole run\<close>


section \<open>Predicates used in the statements\<close>

text \<open>The shape the data model gives to a coordinate: a float or null.\<close>

definition float_or_null :: "json \<Rightarrow> bool" where
  "float_or_null v = (case v of JNull \<Rightarrow> True | JFloat _ \<Rightarrow> True | _ \<Rightarrow> False)"


section \<open>Properties of the locator\<close>

lemma candidate_loop_find:
  "map_option JList (candidate_loop ks kvs) =
     (case find (maps_to_sequence kvs) ks of Some k \<Rightarrow> map_of kvs k | None \<Rightarrow> None)"
  by (induction ks)
     (auto simp: maps_to_sequence_def is_sequence_def split: option.splits json.splits)

lemma candidate_loop_None:
  "candidate_loop ks kvs = None \<longleftrightarrow> find (maps_to_sequence kvs) ks = None"
  by (induction ks)
     (auto simp: maps_to_sequence_def is_sequence_def split: option.splits json.splits)

lemma items_loop_find:
  "map_option JList (items_loop kvs) =
     map_option snd (find (\<lambda>kv. nonempty_sequence_of_records (snd kv)) kvs)"
  by (induction kvs rule: items_loop.induct)
     (auto simp: nonempty_sequence_of_records_def is_record_def split: json.splits list.splits)

text \<open>
  C4. The locator computes what the specification describes: the value of the first of
  "properties", "listings", "results", "data", "items" that is mapped to a sequence;
  otherwise the first mapping value, in iteration order, that is a non-empty sequence
  whose first element is a record; a top-level sequence is returned as it is; anything
  else is not found. In particular a mapping with "properties" mapped to a sequence
  yields that sequence, whatever other keys are present.
\<close>

theorem find_listings_container_spec:
  "map_option JList (find_listings_container j) = locate_spec j
   \<and> (map_of kvs ''properties'' = Some (JList xs)
        \<longrightarrow> find_listings_container (JDict kvs) = Some xs)"
proof
  show "map_option JList (find_listings_container j) = locate_spec j"
  proof (cases j)
    case (JDict d)
    show ?thesis
    proof (cases "candidate_loop candidates d")
      case None
      then have "find (maps_to_sequence d) candidates = None"
        by (simp add: candidate_loop_None)
      with None JDict show ?thesis
        by (simp add: find_listings_container_def locate_spec_def items_loop_find)
    next
      case (Some ys)
      have "map_option JList (candidate_loop candidates d) =
            (case find (maps_to_sequence d) candidates of
               Some k \<Rightarrow> map_of d k | None \<Rightarrow> None)"
        by (rule candidate_loop_find)
      with Some JDict show ?thesis
        by (auto simp: find_listings_container_def locate_spec_def split: option.splits)
    qed
  qed (simp_all add: find_listings_container_def locate_spec_def)
next
  show "map_of kvs ''properties'' = Some (JList xs)
          \<longrightarrow> find_listings_container (JDict kvs) = Some xs"
    by (simp add: find_listings_container_def candidates_def)
qed

theorem find_listings_container_spec_witness:
  "map_of [(''total'', JInt 1), (''items'', JList []), (''properties'', JList [JInt 7])]
       ''properties'' = Some (JList [JInt 7])
   \<and> find_listings_container
       (JDict [(''total'', JInt 1), (''items'', JList []), (''properties'', JList [JInt 7])])
     = Some [JInt 7]"
  using find_listings_container_spec
    [of JNull "[(''total'', JInt 1), (''items'', JList []), (''properties'', JList [JInt 7])]"
        "[JInt 7]"]
  by simp

section \<open>Properties of the field normalizer\<close>

lemma is_digit_not_space: "is_digit c \<Longrightarrow> \<not> is_space c"
  by (auto simp: is_digit_def is_space_def)

lemma is_digit_not_sign: "is_digit c \<Longrightarrow> c \<noteq> CHR ''-'' \<and> c \<noteq> CHR ''+'' \<and> c \<noteq> CHR ''_'' \<and> c \<noteq> CHR '',''"
  by (auto simp: is_digit_def)

lemma scan_digits_concat: "concat (scan_digits cur s) = cur @ filter is_digit s"
  by (induction s arbitrary: cur) auto

lemma scan_digits_Nil: "scan_digits cur s = [] \<longleftrightarrow> cur = [] \<and> filter is_digit s = []"
  by (induction s arbitrary: cur) auto

lemma digits_us_digits:
  "ds \<noteq> [] \<Longrightarrow> \<forall>c\<in>set ds. is_digit c \<Longrightarrow> digits_us ds = Some ds"
  by (induction ds rule: digits_us.induct) (auto dest: is_digit_not_sign)

lemma strip_digits:
  assumes "ds \<noteq> []" "\<forall>c\<in>set ds. is_digit c"
  shows "strip ds = ds"
proof -
  have a: "dropWhile is_space ds = ds"
    using assms by (cases ds) (auto dest: is_digit_not_space)
  have "rev ds \<noteq> []" "\<forall>c\<in>set (rev ds). is_digit c"
    using assms by auto
  then have b: "dropWhile is_space (rev ds) = rev ds"
    by (cases "rev ds") (auto dest: is_digit_not_space)
  show ?thesis by (simp add: strip_def a b)
qed

lemma split_sign_digits:
  "ds \<noteq> [] \<Longrightarrow> \<forall>c\<in>set ds. is_digit c \<Longrightarrow> split_sign ds = (False, ds)"
  by (cases ds) (auto simp: split_sign_def dest: is_digit_not_sign)

lemma int_of_str_digits:
  "ds \<noteq> [] \<Longrightarrow> \<forall>c\<in>set ds. is_digit c \<Longrightarrow> int_of_str ds = Inr (int (dec_value ds))"
  by (simp add: int_of_str_def strip_digits split_sign_digits digits_us_digits)

lemma filter_digit_replace_commas: "filter is_digit (replace_commas s) = filter is_digit s"
  unfolding replace_commas_def filter_filter
  by (rule filter_cong) (auto dest: is_digit_not_sign)

lemma price_try_text:
  "price_try (JStr s) =
     Inr (if filter is_digit s = [] then None else Some (int (dec_value (filter is_digit s))))"
proof (cases "filter is_digit s = []")
  case True
  then show ?thesis
    by (simp add: price_try_def is_number_def findall_digits_def scan_digits_Nil
        filter_digit_replace_commas)
next
  case False
  have c: "concat (findall_digits (replace_commas s)) = filter is_digit s"
    by (simp add: findall_digits_def scan_digits_concat filter_digit_replace_commas)
  have "int_of_str (filter is_digit s) = Inr (int (dec_value (filter is_digit s)))"
    using False by (intro int_of_str_digits) auto
  with False c show ?thesis
    by (simp add: price_try_def is_number_def findall_digits_def scan_digits_Nil
        filter_digit_replace_commas)
qed



lemma try_get_not_dict: "\<not> is_record obj \<Longrightarrow> try_get obj ks = JNull"
  by (induction ks) (auto simp: is_record_def split: json.splits)

lemma int_field:
  "except_none (int_try v) = (case py_int v of Inl _ \<Rightarrow> None | Inr n \<Rightarrow> Some n)"
  by (auto simp: except_none_def int_try_def py_int_def int_of_str_def strip_def
      split_sign_def split: sum.splits)



text \<open>
  C6. The normalizer is a total function of the raw listing: each conversion that can
  raise runs inside a \<^verbatim>\<open>try\<close> block whose handler stores null. So beds, baths
  and cars are the integer that \<^verbatim>\<open>int\<close> returns, and null whenever \<^verbatim>\<open>int\<close> raises,
  which it does on "abc", on the empty text and on a missing value; the price is
  null whenever the selected value is neither a number nor a text with a digit.
\<close>

theorem extract_field_never_raises:
  "beds (extract_field L) =
     (case py_int (try_get L beds_keys) of Inl _ \<Rightarrow> None | Inr n \<Rightarrow> Some n)
   \<and> baths (extract_field L) =
     (case py_int (try_get L baths_keys) of Inl _ \<Rightarrow> None | Inr n \<Rightarrow> Some n)
   \<and> cars (extract_field L) =
     (case py_int (try_get L cars_keys) of Inl _ \<Rightarrow> None | Inr n \<Rightarrow> Some n)
   \<and> (\<not> is_number (try_get L price_keys)
        \<and> (\<forall>s. try_get L price_keys = JStr s \<longrightarrow> (\<forall>c\<in>set s. \<not> is_digit c))
        \<longrightarrow> price (extract_field L) = None)
   \<and> py_int (JStr ''abc'') = Inl ValueError
   \<and> py_int (JStr []) = Inl ValueError
   \<and> py_int JNull = Inl TypeError
   \<and> beds (extract_field (JDict [(''beds'', JStr ''abc'')])) = None
   \<and> beds (extract_field (JDict [(''beds'', JStr ''2'')])) = Some 2"
proof (intro conjI impI)
  show "py_int (JStr ''abc'') = Inl ValueError"
    by (simp add: py_int_def int_of_str_def strip_def split_sign_def is_space_def is_digit_def)
  show "py_int (JStr []) = Inl ValueError"
    by (simp add: py_int_def int_of_str_def strip_def split_sign_def)
  show "py_int JNull = Inl TypeError"
    by (simp add: py_int_def)
  show "beds (extract_field (JDict [(''beds'', JStr ''abc'')])) = None"
    by (simp add: extract_field_def int_field beds_keys_def py_int_def int_of_str_def
        strip_def split_sign_def is_space_def is_digit_def)
  show "beds (extract_field (JDict [(''beds'', JStr ''2'')])) = Some 2"
    by (simp add: extract_field_def int_field beds_keys_def py_int_def int_of_str_def
        strip_def split_sign_def is_space_def is_digit_def dec_value_def digit_val_def)
next
  assume a: "\<not> is_number (try_get L price_keys)
        \<and> (\<forall>s. try_get L price_keys = JStr s \<longrightarrow> (\<forall>c\<in>set s. \<not> is_digit c))"
  show "price (extract_field L) = None"
  proof (cases "try_get L price_keys")
    case (JStr s)
    with a have "filter is_digit s = []" by (simp add: filter_empty_conv)
    with JStr show ?thesis
      by (simp add: extract_field_def price_try_text except_none_def)
  qed (use a in \<open>simp_all add: extract_field_def price_try_def except_none_def\<close>)
qed (simp_all add: extract_field_def int_field)

theorem extract_field_never_raises_witness:
  "\<not> is_number (try_get (JDict [(''price'', JStr ''Contact agent'')]) price_keys)
   \<and> try_get (JDict [(''price'', JStr ''Contact agent'')]) price_keys = JStr ''Contact agent''
   \<and> filter is_digit ''Contact agent'' = []
   \<and> price (extract_field (JDict [(''price'', JStr ''Contact agent'')])) = None"
proof -
  have h: "\<not> is_number (try_get (JDict [(''price'', JStr ''Contact agent'')]) price_keys)
      \<and> (\<forall>s. try_get (JDict [(''price'', JStr ''Contact agent'')]) price_keys = JStr s
            \<longrightarrow> (\<forall>c\<in>set s. \<not> is_digit c))"
    by (simp add: price_keys_def is_number_def is_digit_def)
  have "price (extract_field (JDict [(''price'', JStr ''Contact agent'')])) = None"
    using extract_field_never_raises [of "JDict [(''price'', JStr ''Contact agent'')]"] h
    by blast
  then show ?thesis
    by (simp add: price_keys_def is_number_def is_digit_def)
qed

text \<open>
  The claim C8 as stated, that the normalizer's latitude is a float or null, fails on
  a provider that sends its coordinates as texts.
\<close>

theorem extract_field_coordinates_counterexample:
  "\<not> float_or_null
       (lat (extract_field
          (JDict [(''lat'', JStr ''-33.8150''), (''lon'', JStr ''151.0010'')])))"
  by (simp add: extract_field_def lat_keys_def float_or_null_def)

text \<open>
  C8, amended. The normalizer carries the coordinates over unconverted: the latitude
  is the raw value under the first present key of "lat", "latitude", the longitude
  the raw value under the first present key of "lon", "lng", "longitude", and each is
  null when the listing has none of its keys. The conversion to a float is made
  later, by the distance computation.
\<close>

theorem extract_field_coordinates_raw:
  "lat (extract_field L) = try_get L lat_keys
   \<and> lon (extract_field L) = try_get L lon_keys
   \<and> lat (extract_field (JDict kvs)) =
       (case map_of kvs ''lat'' of
          Some v \<Rightarrow> v
        | None \<Rightarrow> (case map_of kvs ''latitude'' of Some v \<Rightarrow> v | None \<Rightarrow> JNull))
   \<and> lon (extract_field (JDict kvs)) =
       (case map_of kvs ''lon'' of
          Some v \<Rightarrow> v
        | None \<Rightarrow>
            (case map_of kvs ''lng'' of
               Some v \<Rightarrow> v
             | None \<Rightarrow> (case map_of kvs ''longitude'' of Some v \<Rightarrow> v | None \<Rightarrow> JNull)))"
  by (simp add: extract_field_def lat_keys_def lon_keys_def split: option.splits)

theorem extract_field_coordinates_raw_witness:
  "lat (extract_field (JDict [(''latitude'', JFloat (- 33.81)), (''lng'', JStr ''151.0'')]))
     = JFloat (- 33.81)
   \<and> lon (extract_field (JDict [(''latitude'', JFloat (- 33.81)), (''lng'', JStr ''151.0'')]))
     = JStr ''151.0''
   \<and> lat (extract_field (JDict [(''price'', JInt 1)])) = JNull
   \<and> lon (extract_field (JDict [(''price'', JInt 1)])) = JNull"
  using extract_field_coordinates_raw
      [of "JNull" "[(''latitude'', JFloat (- 33.81)), (''lng'', JStr ''151.0'')]"]
    extract_field_coordinates_raw [of "JNull" "[(''price'', JInt 1)]"]
  by simp

section \<open>Properties of the distance computation\<close>













section \<open>Properties of the annotator\<close>

lemma annotate_pros:
  "fst (annotate mp it) =
     (if truthy_and (cars it) (\<lambda>c. 1 \<le> c) then [''Has 1+ car space''] else [])
     @ (if beds it = Some 2 \<and> truthy_and (baths it) (\<lambda>b. 2 \<le> b)
        then [''2 beds + 2 baths''] else [])
     @ (if truthy_and (price it) (\<lambda>p. p \<le> mp - 50000)
        then [''Good value under budget''] else [])"
  by (simp add: annotate_def cars_rule_def baths_rule_def price_rule_def)

lemma annotate_cons:
  "snd (annotate mp it) =
     (if truthy_and (cars it) (\<lambda>c. 1 \<le> c) then [] else [''No dedicated parking listed''])
     @ (if \<not> (beds it = Some 2 \<and> truthy_and (baths it) (\<lambda>b. 2 \<le> b))
           \<and> beds it = Some 2
           \<and> (\<not> truthy_and (baths it) (\<lambda>b. True) \<or> baths it = Some 1)
        then [''Only 1 bath for 2 beds''] else [])
     @ (if \<not> truthy_and (price it) (\<lambda>p. p \<le> mp - 50000)
           \<and> truthy_and (price it) (\<lambda>p. mp - 10000 \<le> p)
        then [''Close to top of budget''] else [])"
  by (auto simp: annotate_def cars_rule_def baths_rule_def price_rule_def)

text \<open>
  The claim C3 as stated fails for a known price of 0, which is at most the budget
  less 50000 and gets no label.
\<close>

theorem annotate_price_counterexample:
  "price (extract_field (JDict [(''price'', JInt 0), (''cars'', JInt 1)])) = Some 0
   \<and> (0::int) \<le> 500000 - 50000
   \<and> ''Good value under budget''
        \<notin> set (fst (annotate 500000 (extract_field (JDict [(''price'', JInt 0), (''cars'', JInt 1)]))))"
  by (simp add: annotate_pros truthy_and_def extract_field_def price_keys_def price_try_def
      is_number_def py_int_def except_none_def)

text \<open>
  C3, amended. For every normalized listing and budget: a price that is known, not 0
  and at most the budget less 50000 gives the pro "Good value under budget"; a price
  that is known, not 0 and at least the budget less 10000 gives the con "Close to top
  of budget"; a price that is null, or 0, or strictly between the two thresholds gives
  no price label.
\<close>

theorem annotate_price:
  "(price it = Some p \<and> p \<noteq> 0 \<and> p \<le> mp - 50000 \<longrightarrow>
      ''Good value under budget'' \<in> set (fst (annotate mp it))
      \<and> ''Close to top of budget'' \<notin> set (snd (annotate mp it)))
   \<and> (price it = Some p \<and> p \<noteq> 0 \<and> mp - 10000 \<le> p \<longrightarrow>
      ''Close to top of budget'' \<in> set (snd (annotate mp it))
      \<and> ''Good value under budget'' \<notin> set (fst (annotate mp it)))
   \<and> (price it = None \<or> price it = Some 0
        \<or> (price it = Some p \<and> mp - 50000 < p \<and> p < mp - 10000) \<longrightarrow>
      ''Good value under budget'' \<notin> set (fst (annotate mp it))
      \<and> ''Close to top of budget'' \<notin> set (snd (annotate mp it)))"
  by (auto simp: annotate_pros annotate_cons truthy_and_def)

theorem annotate_price_witness:
  "''Good value under budget''
      \<in> set (fst (annotate 500000 (extract_field (JDict [(''price'', JStr ''$440,000'')]))))
   \<and> ''Close to top of budget''
      \<in> set (snd (annotate 500000 (extract_field (JDict [(''price'', JInt 495000)]))))
   \<and> ''Good value under budget''
      \<notin> set (fst (annotate 500000 (extract_field (JDict [(''price'', JInt 470000)]))))
   \<and> ''Close to top of budget''
      \<notin> set (snd (annotate 500000 (extract_field (JDict [(''price'', JInt 470000)]))))
   \<and> ''Good value under budget''
      \<notin> set (fst (annotate 500000 (extract_field (JDict [(''beds'', JInt 2)]))))
   \<and> ''Close to top of budget''
      \<notin> set (snd (annotate 500000 (extract_field (JDict [(''beds'', JInt 2)]))))"
proof -
  have p1: "price (extract_field (JDict [(''price'', JStr ''$440,000'')])) = Some 440000"
    by (simp add: extract_field_def price_keys_def price_try_text except_none_def
        is_digit_def dec_value_def digit_val_def)
  have p2: "price (extract_field (JDict [(''price'', JInt 495000)])) = Some 495000"
    by (simp add: extract_field_def price_keys_def price_try_def is_number_def py_int_def
        except_none_def)
  have p3: "price (extract_field (JDict [(''price'', JInt 470000)])) = Some 470000"
    by (simp add: extract_field_def price_keys_def price_try_def is_number_def py_int_def
        except_none_def)
  have p4: "price (extract_field (JDict [(''beds'', JInt 2)])) = None"
    by (simp add: extract_field_def price_keys_def price_try_def is_number_def
        except_none_def)
  show ?thesis
    using annotate_price [of "extract_field (JDict [(''price'', JStr ''$440,000'')])" 440000 500000]
      annotate_price [of "extract_field (JDict [(''price'', JInt 495000)])" 495000 500000]
      annotate_price [of "extract_field (JDict [(''price'', JInt 470000)])" 470000 500000]
      annotate_price [of "extract_field (JDict [(''beds'', JInt 2)])" 0 500000]
      p1 p2 p3 p4
    by simp
qed

text \<open>
  C7. For every normalized listing: with cars at least 1 the pros include "Has 1+ car
  space", and otherwise (cars null, zero or below 1) the cons include "No dedicated
  parking listed"; exactly one of the two labels is produced.
\<close>

theorem annotate_parking:
  "((\<exists>c. cars it = Some c \<and> 1 \<le> c) \<longrightarrow>
      ''Has 1+ car space'' \<in> set (fst (annotate mp it))
      \<and> ''No dedicated parking listed'' \<notin> set (snd (annotate mp it)))
   \<and> (\<not> (\<exists>c. cars it = Some c \<and> 1 \<le> c) \<longrightarrow>
      ''No dedicated parking listed'' \<in> set (snd (annotate mp it))
      \<and> ''Has 1+ car space'' \<notin> set (fst (annotate mp it)))
   \<and> count_list (fst (annotate mp it) @ snd (annotate mp it)) ''Has 1+ car space''
       + count_list (fst (annotate mp it) @ snd (annotate mp it)) ''No dedicated parking listed''
     = 1"
  by (auto simp: annotate_pros annotate_cons truthy_and_def split: option.splits)

theorem annotate_parking_witness:
  "''Has 1+ car space''
      \<in> set (fst (annotate 500000 (extract_field (JDict [(''carspaces'', JStr ''1'')]))))
   \<and> ''No dedicated parking listed''
      \<in> set (snd (annotate 500000 (extract_field (JDict [(''carspaces'', JInt 0)]))))
   \<and> ''No dedicated parking listed''
      \<in> set (snd (annotate 500000 (extract_field (JDict [(''beds'', JInt 2)]))))"
proof -
  have c1: "cars (extract_field (JDict [(''carspaces'', JStr ''1'')])) = Some 1"
    by (simp add: extract_field_def int_field cars_keys_def py_int_def int_of_str_def
        strip_def split_sign_def is_space_def is_digit_def dec_value_def digit_val_def)
  have c2: "cars (extract_field (JDict [(''carspaces'', JInt 0)])) = Some 0"
    by (simp add: extract_field_def int_field cars_keys_def py_int_def)
  have c3: "cars (extract_field (JDict [(''beds'', JInt 2)])) = None"
    by (simp add: extract_field_def int_field cars_keys_def py_int_def)
  show ?thesis
    using annotate_parking [of "extract_field (JDict [(''carspaces'', JStr ''1'')])" 500000]
      annotate_parking [of "extract_field (JDict [(''carspaces'', JInt 0)])" 500000]
      annotate_parking [of "extract_field (JDict [(''beds'', JInt 2)])" 500000]
      c1 c2 c3
    by simp
qed

section \<open>Properties of the run\<close>








text \<open>
  C10. The renderer does not tell zero from null. A beds, baths or cars value of 0 is
  shown as "?", and the whole block is the one rendered with that value null; a price
  of 0 whose raw price value is empty or absent is shown as "Price unknown", again as
  for a null price.
\<close>

theorem render_zero_as_unknown:
  "(beds (raw p) = Some 0 \<longrightarrow>
      summary_line (raw p) ! 0 = Lit ''?''
      \<and> render_block p = render_block (p\<lparr>raw := (raw p)\<lparr>beds := None\<rparr>\<rparr>))
   \<and> (baths (raw p) = Some 0 \<longrightarrow>
      summary_line (raw p) ! 2 = Lit ''?''
      \<and> render_block p = render_block (p\<lparr>raw := (raw p)\<lparr>baths := None\<rparr>\<rparr>))
   \<and> (cars (raw p) = Some 0 \<longrightarrow>
      summary_line (raw p) ! 4 = Lit ''?''
      \<and> render_block p = render_block (p\<lparr>raw := (raw p)\<lparr>cars := None\<rparr>\<rparr>))
   \<and> (price (raw p) = Some 0 \<and> \<not> truthy (price_raw (raw p)) \<longrightarrow>
      title_line (raw p) = [title_of (raw p), Dash, Lit ''Price unknown'']
      \<and> render_block p = render_block (p\<lparr>raw := (raw p)\<lparr>price := None\<rparr>\<rparr>))"
  by (simp add: render_block_def summary_line_def title_line_def title_of_def
      price_text_of_def count_or_unknown_def)

theorem render_zero_as_unknown_witness:
  "render_block (enrich 500000 (\<lambda>a. None)
      (JDict [(''price'', JInt 0), (''bedrooms'', JInt 0), (''bathrooms'', JStr ''0''),
              (''carspaces'', JFloat 0)]))
   = [[Lit ''Property'', Dash, Lit ''Price unknown''],
      [Lit ''?'', Lit '' bed | '', Lit ''?'', Lit '' bath | '', Lit ''?'', Lit '' car''],
      [Lit ''Cons: No dedicated parking listed'']]
   \<and> render_block (enrich 500000 (\<lambda>a. None)
      (JDict [(''price'', JInt 0), (''bedrooms'', JInt 0), (''bathrooms'', JStr ''0''),
              (''carspaces'', JFloat 0)]))
     = render_block (enrich 500000 (\<lambda>a. None) (JDict []))"
proof -
  let ?L = "JDict [(''price'', JInt 0), (''bedrooms'', JInt 0), (''bathrooms'', JStr ''0''),
              (''carspaces'', JFloat 0)]"
  let ?p = "enrich 500000 (\<lambda>a. None) ?L"
  have z: "int_of_str ''0'' = Inr 0"
    by (simp add: int_of_str_def strip_def is_space_def split_sign_def is_digit_def
        dec_value_def digit_val_def)
  have g: "geocode (\<lambda>a. None) (extract_field ?L) =
      \<lparr>price_raw = JInt 0, price = Some 0, beds = Some 0, baths = Some 0,
       cars = Some 0, address = JNull, url = JNull, lat = JNull, lon = JNull\<rparr>"
    by (simp add: geocode_def extract_field_def
        price_keys_def beds_keys_def baths_keys_def cars_keys_def address_keys_def
        url_keys_def lat_keys_def lon_keys_def truthy_def price_try_def is_number_def
        int_try_def except_none_def py_int_def z)
  have r: "raw ?p = \<lparr>price_raw = JInt 0, price = Some 0, beds = Some 0, baths = Some 0,
      cars = Some 0, address = JNull, url = JNull, lat = JNull, lon = JNull\<rparr>"
    by (simp add: enrich_def Let_def g)
  have h: "beds (raw ?p) = Some 0" "baths (raw ?p) = Some 0" "cars (raw ?p) = Some 0"
    "price (raw ?p) = Some 0 \<and> \<not> truthy (price_raw (raw ?p))"
    unfolding r by (simp_all add: truthy_def)
  have d: "dist_station_km ?p = None" "dist_park_km ?p = None"
    "pros ?p = []" "cons ?p = [''No dedicated parking listed'']"
    by (simp_all add: enrich_def Let_def g distances_def
        truthy_def annotate_def cars_rule_def baths_rule_def price_rule_def truthy_and_def)
  have s: "summary_line (raw ?p) ! 0 = Lit ''?''" "summary_line (raw ?p) ! 2 = Lit ''?''"
    "summary_line (raw ?p) ! 4 = Lit ''?''"
    "title_line (raw ?p) = [title_of (raw ?p), Dash, Lit ''Price unknown'']"
    using render_zero_as_unknown [of ?p] h by blast+
  have t: "title_of (raw ?p) = Lit ''Property''"
    unfolding r by (simp add: title_of_def truthy_def)
  have sl: "summary_line (raw ?p) =
      [summary_line (raw ?p) ! 0, Lit '' bed | '', summary_line (raw ?p) ! 2, Lit '' bath | '',
       summary_line (raw ?p) ! 4, Lit '' car'']"
    by (simp add: summary_line_def)
  have u: "\<not> truthy (url (raw ?p))"
    unfolding r by (simp add: truthy_def)
  have sl2: "summary_line (raw ?p) =
      [Lit ''?'', Lit '' bed | '', Lit ''?'', Lit '' bath | '', Lit ''?'', Lit '' car'']"
    by (subst sl) (simp only: s)
  have b1: "render_block ?p = [[Lit ''Property'', Dash, Lit ''Price unknown''],
      [Lit ''?'', Lit '' bed | '', Lit ''?'', Lit '' bath | '', Lit ''?'', Lit '' car''],
      [Lit ''Cons: No dedicated parking listed'']]"
    unfolding render_block_def d s(4) t sl2 using u by simp
  have b2: "render_block (enrich 500000 (\<lambda>a. None) (JDict [])) =
     [[Lit ''Property'', Dash, Lit ''Price unknown''],
      [Lit ''?'', Lit '' bed | '', Lit ''?'', Lit '' bath | '', Lit ''?'', Lit '' car''],
      [Lit ''Cons: No dedicated parking listed'']]"
    by (simp add: render_block_def enrich_def Let_def geocode_def extract_field_def
        price_keys_def beds_keys_def baths_keys_def cars_keys_def address_keys_def
        url_keys_def lat_keys_def lon_keys_def truthy_def price_try_def is_number_def
        int_try_def except_none_def distances_def annotate_def cars_rule_def baths_rule_def
        price_rule_def truthy_and_def title_line_def title_of_def price_text_of_def
        summary_line_def count_or_unknown_def)
  show ?thesis using b1 b2 by simp
qed




end
